theory Spec2Isabelle
  imports Complex_Main "HOL-Library.AList"
begin

section \<open>JavaScript values\<close>

text \<open>
  The analyzer is dynamically typed: provider replies, decoded payloads, advisory insights
  and decisions are plain JavaScript values, read with property access, optional chaining,
  truthiness tests and \<open>||\<close> defaults. They are modelled as such. These values come from
  decoded JSON and from the object literals of the source, so functions, symbols and big
  integers do not occur among them.

  A number is \<open>NaN\<close>, an infinity, or the rational it denotes (every finite double is a
  rational; the two zeros are identified, both are falsy and compare equal). Decimal
  literals of the source denote their decimal value. The only arithmetic of the source on
  non-integers is comparison, \<open>Math.min\<close> and \<open>Math.max\<close>, which are exact.
\<close>

datatype jsnum = NaN | NegInfinity | Num rat | Infinity

datatype jsval =
    JUndefined
  | JNull
  | JBool bool
  | JNum jsnum
  | JStr string
  | JArr "jsval list"
  | JObj "(string \<times> jsval) list"

text \<open>What \<open>JSON.parse\<close> can return: no \<open>undefined\<close> and no \<open>NaN\<close>, at any depth.\<close>

fun is_json :: "jsval \<Rightarrow> bool" where
  "is_json JUndefined = False"
| "is_json JNull = True"
| "is_json (JBool b) = True"
| "is_json (JNum n) = (n \<noteq> NaN)"
| "is_json (JStr s) = True"
| "is_json (JArr xs) = list_all is_json xs"
| "is_json (JObj kvs) = list_all (\<lambda>kv. is_json (snd kv)) kvs"

datatype net_failure = Timeout | Transport string | BadStatus nat

datatype error =
    TypeError
  | SyntaxError
  | UnknownProvider string
  | AxiosError net_failure
  | GeminiBlocked jsval
  | GeminiEmptyResponse
  | EmptyAIResponse
  | Thrown string

definition bindE :: "error + 'a \<Rightarrow> ('a \<Rightarrow> error + 'b) \<Rightarrow> error + 'b" where
  "bindE m f = (case m of Inl e \<Rightarrow> Inl e | Inr v \<Rightarrow> f v)"

subsection \<open>Numbers\<close>

text \<open>\<open>a <= b\<close> on numbers: false as soon as one side is \<open>NaN\<close>.\<close>

fun num_le :: "jsnum \<Rightarrow> jsnum \<Rightarrow> bool" where
  "num_le NaN b = False"
| "num_le a NaN = False"
| "num_le NegInfinity b = True"
| "num_le a Infinity = True"
| "num_le (Num x) (Num y) = (x \<le> y)"
| "num_le Infinity b = False"
| "num_le a NegInfinity = False"

definition num_ge :: "jsnum \<Rightarrow> jsnum \<Rightarrow> bool" where
  "num_ge a b = num_le b a"

text \<open>\<open>Math.min(a, b)\<close> and \<open>Math.max(a, b)\<close>: \<open>NaN\<close> if an argument is \<open>NaN\<close>.\<close>

definition math_min :: "jsnum \<Rightarrow> jsnum \<Rightarrow> jsnum" where
  "math_min a b = (if a = NaN \<or> b = NaN then NaN else if num_le a b then a else b)"

definition math_max :: "jsnum \<Rightarrow> jsnum \<Rightarrow> jsnum" where
  "math_max a b = (if a = NaN \<or> b = NaN then NaN else if num_le a b then b else a)"

definition num_truthy :: "jsnum \<Rightarrow> bool" where
  "num_truthy n = (n \<noteq> NaN \<and> n \<noteq> Num 0)"

subsection \<open>Truthiness, defaults, property access\<close>

fun truthy :: "jsval \<Rightarrow> bool" where
  "truthy JUndefined = False"
| "truthy JNull = False"
| "truthy (JBool b) = b"
| "truthy (JNum n) = num_truthy n"
| "truthy (JStr s) = (s \<noteq> [])"
| "truthy (JArr xs) = True"
| "truthy (JObj kvs) = True"

text \<open>\<open>a || b\<close>\<close>

definition js_or :: "jsval \<Rightarrow> jsval \<Rightarrow> jsval" where
  "js_or a b = (if truthy a then a else b)"

text \<open>
  \<open>v.k\<close> for the property names the source reads (\<open>analyzed\<close>, \<open>recommendation\<close>,
  \<open>confidence\<close>, \<open>text\<close>, ...): none of them is a built-in member of a string, an array, a
  number or a boolean, so only an object can have one. Reading a property of \<open>undefined\<close>
  or \<open>null\<close> throws a TypeError. An object is the list of its own properties, the first
  binding of a key being the one that counts.
\<close>

fun js_get :: "jsval \<Rightarrow> string \<Rightarrow> error + jsval" where
  "js_get JUndefined k = Inl TypeError"
| "js_get JNull k = Inl TypeError"
| "js_get (JObj kvs) k = Inr (case map_of kvs k of Some v \<Rightarrow> v | None \<Rightarrow> JUndefined)"
| "js_get v k = Inr JUndefined"

text \<open>\<open>v?.k\<close>\<close>

definition opt_get :: "jsval \<Rightarrow> string \<Rightarrow> jsval" where
  "opt_get v k = (case js_get v k of Inl e \<Rightarrow> JUndefined | Inr x \<Rightarrow> x)"

text \<open>\<open>v?.[0]\<close>\<close>

fun opt_first :: "jsval \<Rightarrow> jsval" where
  "opt_first (JArr xs) = (case xs of [] \<Rightarrow> JUndefined | x # rest \<Rightarrow> x)"
| "opt_first (JStr s) = (case s of [] \<Rightarrow> JUndefined | c # rest \<Rightarrow> JStr [c])"
| "opt_first (JObj kvs) = (case map_of kvs ''0'' of Some v \<Rightarrow> v | None \<Rightarrow> JUndefined)"
| "opt_first v = JUndefined"

text \<open>
  \<open>{...base, ...v}\<close>: the own properties of \<open>v\<close> are written onto the properties so far, a
  key already there keeping its place and taking the new value.
\<close>

fun own_entries :: "jsval \<Rightarrow> (string \<times> jsval) list" where
  "own_entries (JObj kvs) = kvs"
| "own_entries v = []"

definition spread :: "(string \<times> jsval) list \<Rightarrow> jsval \<Rightarrow> (string \<times> jsval) list" where
  "spread base v = fold (\<lambda>kv acc. AList.update (fst kv) (snd kv) acc) (own_entries v) base"

section \<open>The world outside the analyzer\<close>

record request =
  url :: string
  headers :: "(string \<times> string) list"
  body :: jsval
  timeout_opt :: jsnum

text \<open>\<open>axios.post\<close> either rejects or resolves with a response, of which only \<open>data\<close> is read.\<close>

datatype http_result = Rejected net_failure | Resolved jsval

text \<open>
  What the source takes from its runtime and from the network:
  \<^item> \<open>net k rq\<close>: the outcome of \<open>axios.post\<close> for request \<open>rq\<close>, issued after \<open>k\<close> earlier ones;
  \<^item> \<open>clock k\<close>: what \<open>Date.now()\<close> reads when it has been read \<open>k\<close> times before;
  \<^item> \<open>json_parse\<close>: \<open>JSON.parse\<close>, \<open>None\<close> when it throws;
  \<^item> \<open>stringify\<close>: the text \<open>JSON.stringify(v, null, 2)\<close> puts into a template;
  \<^item> \<open>to_str\<close>: the string conversion \<open>Array.prototype.join\<close> applies to an element that
    is not a string, \<open>undefined\<close> or \<open>null\<close>;
  \<^item> \<open>to_num\<close>: the number conversion \<open>>=\<close> applies to a string, an array or an object.
\<close>

record env =
  net :: "nat \<Rightarrow> request \<Rightarrow> http_result"
  clock :: "nat \<Rightarrow> int"
  json_parse :: "string \<Rightarrow> jsval option"
  stringify :: "jsval \<Rightarrow> string"
  to_str :: "jsval \<Rightarrow> string"
  to_num :: "jsval \<Rightarrow> jsnum"

text \<open>
  The effects of one run: the requests issued and the warnings logged, oldest first, and
  how often the clock has been read.
\<close>

record world =
  sent :: "request list"
  warnings :: "(string \<times> string \<times> error) list"
  ticks :: nat

definition date_now :: "env \<Rightarrow> world \<Rightarrow> int \<times> world" where
  "date_now E w = (clock E (ticks w), w\<lparr>ticks := Suc (ticks w)\<rparr>)"

text \<open>\<open>a >= b\<close> with a number on the right: the left operand is converted to a number.\<close>

fun to_number :: "env \<Rightarrow> jsval \<Rightarrow> jsnum" where
  "to_number E JUndefined = NaN"
| "to_number E JNull = Num 0"
| "to_number E (JBool b) = (if b then Num 1 else Num 0)"
| "to_number E (JNum n) = n"
| "to_number E v = to_num E v"

definition js_ge :: "env \<Rightarrow> jsval \<Rightarrow> jsnum \<Rightarrow> bool" where
  "js_ge E v n = num_ge (to_number E v) n"

section \<open>AIAnalyzer\<close>

record provider =
  name :: string
  apiUrl :: string
  model :: string
  apiKey :: string

text \<open>The constructor's argument; \<open>None\<close> is a property that is \<open>undefined\<close>.\<close>

record config =
  cfg_enabled :: "bool option"
  cfg_providers :: "provider list option"
  cfg_timeout :: "jsnum option"
  cfg_confidenceThreshold :: "jsnum option"

record analyzer =
  enabled :: bool
  providers :: "provider list"
  timeout :: jsnum
  confidenceThreshold :: jsnum

definition empty_config :: config where
  "empty_config = \<lparr>cfg_enabled = None, cfg_providers = None, cfg_timeout = None,
     cfg_confidenceThreshold = None\<rparr>"

text \<open>
  \<open>constructor(config = {})\<close>: each field is \<open>config.field || default\<close>. \<open>false\<close>, \<open>0\<close> and
  \<open>NaN\<close> are falsy; an array, even empty, is truthy.
\<close>

definition num_or :: "jsnum option \<Rightarrow> jsnum \<Rightarrow> jsnum" where
  "num_or v d = (case v of None \<Rightarrow> d | Some n \<Rightarrow> if num_truthy n then n else d)"

definition "constructor" :: "config option \<Rightarrow> analyzer" where
  "constructor arg =
     (let config = (case arg of None \<Rightarrow> empty_config | Some c \<Rightarrow> c) in
      \<lparr>enabled = (case cfg_enabled config of None \<Rightarrow> False | Some b \<Rightarrow> if b then b else False),
       providers = (case cfg_providers config of None \<Rightarrow> [] | Some ps \<Rightarrow> ps),
       timeout = num_or (cfg_timeout config) (Num 5000),
       confidenceThreshold = num_or (cfg_confidenceThreshold config) (Num (7 / 10))\<rparr>)"

subsection \<open>Prompt\<close>

record ruleContext =
  evaluationPath :: jsval

definition buildPrompt :: "env \<Rightarrow> jsval \<Rightarrow> ruleContext \<Rightarrow> string" where
  "buildPrompt E input rc =
     ''You are a decision support system analyzing a GREY-ZONE request.\<newline>''
     @ ''\<newline>''
     @ ''REQUEST:\<newline>''
     @ stringify E input @ ''\<newline>''
     @ ''\<newline>''
     @ ''RULE CONTEXT:\<newline>''
     @ stringify E (js_or (evaluationPath rc) (JArr [])) @ ''\<newline>''
     @ ''\<newline>''
     @ ''Respond ONLY in JSON:\<newline>''
     @ ''{\<newline>''
     @ ''  \"recommendation\": \"ALLOW\" | \"DENY\" | \"REVIEW\",\<newline>''
     @ ''  \"confidence\": 0.0-1.0,\<newline>''
     @ ''  \"reasoning\": \"short explanation\",\<newline>''
     @ ''  \"risk_factors\": [],\<newline>''
     @ ''  \"mitigating_factors\": []\<newline>''
     @ ''}''"

subsection \<open>Provider call\<close>

text \<open>Lines 47 to 65 of the source: the request for a known provider, or the throw.\<close>

definition build_request :: "analyzer \<Rightarrow> provider \<Rightarrow> string \<Rightarrow> error + request" where
  "build_request an p prompt =
     (if name p = ''gemini'' then
        Inr \<lparr>url = apiUrl p @ ''/'' @ model p @ '':generateContent?key='' @ apiKey p,
             headers = [(''Content-Type'', ''application/json'')],
             body = JObj [(''contents'',
                      JArr [JObj [(''parts'', JArr [JObj [(''text'', JStr prompt)]])]])],
             timeout_opt = timeout an\<rparr>
      else if name p = ''claude'' then
        Inr \<lparr>url = apiUrl p,
             headers = [(''Content-Type'', ''application/json''), (''x-api-key'', apiKey p),
                        (''anthropic-version'', ''2023-06-01'')],
             body = JObj [(''model'', JStr (model p)), (''max_tokens'', JNum (Num 500)),
                      (''messages'',
                       JArr [JObj [(''role'', JStr ''user''), (''content'', JStr prompt)]])],
             timeout_opt = timeout an\<rparr>
      else Inl (UnknownProvider (name p)))"

text \<open>\<open>parts.map(p => p.text)\<close> on the elements of an array\<close>

fun map_text :: "jsval list \<Rightarrow> error + jsval list" where
  "map_text [] = Inr []"
| "map_text (x # xs) =
     bindE (js_get x ''text'') (\<lambda>t. bindE (map_text xs) (\<lambda>ts. Inr (t # ts)))"

text \<open>\<open>xs.join("")\<close>: \<open>undefined\<close> and \<open>null\<close> elements give the empty string.\<close>

fun join_piece :: "env \<Rightarrow> jsval \<Rightarrow> string" where
  "join_piece E JUndefined = []"
| "join_piece E JNull = []"
| "join_piece E (JStr s) = s"
| "join_piece E v = to_str E v"

definition join_empty :: "env \<Rightarrow> jsval list \<Rightarrow> string" where
  "join_empty E xs = concat (map (join_piece E) xs)"

text \<open>
  \<open>extractContent(providerName, response)\<close>, on \<open>response.data\<close>. Calling \<open>map\<close> on a value
  that is neither nullish nor an array throws (no such function).
\<close>

definition extractContent :: "env \<Rightarrow> string \<Rightarrow> jsval \<Rightarrow> error + jsval" where
  "extractContent E providerName data =
     (if providerName = ''gemini'' then
        (case opt_get (opt_get (opt_first (opt_get data ''candidates'')) ''content'') ''parts'' of
           JUndefined \<Rightarrow> Inr JNull
         | JNull \<Rightarrow> Inr JNull
         | JArr ps \<Rightarrow>
             bindE (map_text ps) (\<lambda>ts. Inr (js_or (JStr (join_empty E ts)) JNull))
         | other \<Rightarrow> Inl TypeError)
      else if providerName = ''claude'' then
        Inr (js_or (opt_get (opt_first (opt_get data ''content'')) ''text'') JNull)
      else Inr JNull)"

text \<open>\<open>response.data?.promptFeedback?.blockReason\<close>\<close>

definition block_reason :: "jsval \<Rightarrow> jsval" where
  "block_reason d = opt_get (opt_get d ''promptFeedback'') ''blockReason''"

text \<open>Lines 72 to 91: the safety block, the content, the empty reply.\<close>

definition read_reply :: "env \<Rightarrow> provider \<Rightarrow> jsval \<Rightarrow> error + jsval" where
  "read_reply E p data =
     (if name p = ''gemini'' \<and> truthy (block_reason data)
      then Inl (GeminiBlocked (block_reason data))
      else bindE (extractContent E (name p) data) (\<lambda>content.
        if \<not> truthy content
        then Inl (if name p = ''gemini'' then GeminiEmptyResponse else EmptyAIResponse)
        else Inr content))"

definition callProvider ::
    "env \<Rightarrow> analyzer \<Rightarrow> provider \<Rightarrow> string \<Rightarrow> world \<Rightarrow> (error + jsval) \<times> world" where
  "callProvider E an p prompt w =
     (case build_request an p prompt of
        Inl e \<Rightarrow> (Inl e, w)
      | Inr rq \<Rightarrow>
          (case net E (length (sent w)) rq of
             Rejected f \<Rightarrow> (Inl (AxiosError f), w\<lparr>sent := sent w @ [rq]\<rparr>)
           | Resolved data \<Rightarrow> (read_reply E p data, w\<lparr>sent := sent w @ [rq]\<rparr>)))"

subsection \<open>Parsing\<close>

definition fence :: string where
  "fence = [CHR 0x60, CHR 0x60, CHR 0x60]"

text \<open>\<open>s.replace(/```json|```/g, "")\<close>: a left-to-right scan, the longer alternative first.\<close>

function strip_fences :: "string \<Rightarrow> string" where
  "strip_fences s =
     (if s = [] then []
      else if take 7 s = fence @ ''json'' then strip_fences (drop 7 s)
      else if take 3 s = fence then strip_fences (drop 3 s)
      else hd s # strip_fences (tl s))"
  by pat_completeness auto
termination
  by (relation "measure length") auto

declare strip_fences.simps [simp del]

text \<open>
  \<open>s.trim()\<close> on ASCII text: tab, line feed, vertical tab, form feed, carriage return and
  space are removed at both ends.
\<close>

definition is_space :: "char \<Rightarrow> bool" where
  "is_space c = (c \<in> set [CHR 0x09, CHR 0x0A, CHR 0x0B, CHR 0x0C, CHR 0x0D, CHR 0x20])"

definition trim :: "string \<Rightarrow> string" where
  "trim s = rev (dropWhile is_space (rev (dropWhile is_space s)))"

definition invalid_response :: jsval where
  "invalid_response =
     JObj [(''recommendation'', JStr ''REVIEW''),
           (''confidence'', JNum (Num 0)),
           (''reasoning'', JStr ''Invalid AI response''),
           (''riskFactors'', JArr []),
           (''mitigatingFactors'', JArr [])]"

text \<open>
  \<open>["ALLOW", "DENY", "REVIEW"].includes(r) ? r : "REVIEW"\<close>: \<open>includes\<close> finds only one of
  the three strings themselves.
\<close>

definition valid_recommendation :: "jsval \<Rightarrow> jsval" where
  "valid_recommendation r =
     (if r \<in> set [JStr ''ALLOW'', JStr ''DENY'', JStr ''REVIEW''] then r else JStr ''REVIEW'')"

text \<open>\<open>typeof c === "number" ? Math.max(0, Math.min(1, c)) : 0.5\<close>\<close>

definition clamp_confidence :: "jsval \<Rightarrow> jsval" where
  "clamp_confidence c =
     (case c of
        JNum n \<Rightarrow> JNum (math_max (Num 0) (math_min (Num 1) n))
      | other \<Rightarrow> JNum (Num (1 / 2)))"

text \<open>
  The \<open>try\<close> block of \<open>parseResponse\<close>. \<open>raw.replace\<close> is a function only when \<open>raw\<close> is a
  string; reading a property of a decoded \<open>null\<close> throws.
\<close>

definition parse_body :: "env \<Rightarrow> jsval \<Rightarrow> error + jsval" where
  "parse_body E raw =
     (case raw of
        JStr s \<Rightarrow>
          (case json_parse E (trim (strip_fences s)) of
             None \<Rightarrow> Inl SyntaxError
           | Some parsed \<Rightarrow>
               bindE (js_get parsed ''recommendation'') (\<lambda>rec.
               bindE (js_get parsed ''confidence'') (\<lambda>conf.
               bindE (js_get parsed ''reasoning'') (\<lambda>reasoning.
               bindE (js_get parsed ''risk_factors'') (\<lambda>risk.
               bindE (js_get parsed ''mitigating_factors'') (\<lambda>mitigating.
                 Inr (JObj
                   [(''recommendation'', valid_recommendation rec),
                    (''confidence'', clamp_confidence conf),
                    (''reasoning'', js_or reasoning (JStr [])),
                    (''riskFactors'', js_or risk (JArr [])),
                    (''mitigatingFactors'', js_or mitigating (JArr []))])))))))
      | other \<Rightarrow> Inl TypeError)"

definition parseResponse :: "env \<Rightarrow> jsval \<Rightarrow> jsval" where
  "parseResponse E raw =
     (case parse_body E raw of Inl e \<Rightarrow> invalid_response | Inr r \<Rightarrow> r)"

subsection \<open>Main analysis with fallback\<close>

definition ms :: "int \<Rightarrow> jsval" where
  "ms d = JNum (Num (of_int d))"

text \<open>
  The \<open>try\<close> block of the loop of \<open>analyze\<close>, for one provider: the call, the parse, and
  the insight returned. Whatever is thrown in it goes to the \<open>catch\<close>.
\<close>

definition try_provider ::
    "env \<Rightarrow> analyzer \<Rightarrow> provider \<Rightarrow> string \<Rightarrow> int \<Rightarrow> world \<Rightarrow> (error + jsval) \<times> world" where
  "try_provider E an p prompt start w =
     (case callProvider E an p prompt w of
        (Inl e, w1) \<Rightarrow> (Inl e, w1)
      | (Inr raw, w1) \<Rightarrow>
          (let parsed = parseResponse E raw in
           case date_now E w1 of (t, w2) \<Rightarrow>
             (bindE (js_get parsed ''confidence'') (\<lambda>conf.
                Inr (JObj (spread
                  [(''analyzed'', JBool True),
                   (''provider'', JStr (name p)),
                   (''model'', JStr (model p)),
                   (''analysisTimeMs'', ms (t - start)),
                   (''meetsConfidenceThreshold'', JBool (js_ge E conf (confidenceThreshold an)))]
                  parsed))),
              w2)))"

definition warn :: "provider \<Rightarrow> error \<Rightarrow> world \<Rightarrow> world" where
  "warn p e w = w\<lparr>warnings := warnings w @ [(name p, model p, e)]\<rparr>"

definition all_failed :: "env \<Rightarrow> int \<Rightarrow> world \<Rightarrow> jsval \<times> world" where
  "all_failed E start w =
     (case date_now E w of (t, w1) \<Rightarrow>
        (JObj [(''analyzed'', JBool False),
               (''meetsConfidenceThreshold'', JBool False),
               (''reason'', JStr ''ALL_PROVIDERS_FAILED''),
               (''analysisTimeMs'', ms (t - start))],
         w1))"

text \<open>The \<open>for\<close> loop of \<open>analyze\<close> over the providers still to try, and what follows it.\<close>

fun try_providers ::
    "env \<Rightarrow> analyzer \<Rightarrow> string \<Rightarrow> int \<Rightarrow> provider list \<Rightarrow> world \<Rightarrow> jsval \<times> world" where
  "try_providers E an prompt start [] w = all_failed E start w"
| "try_providers E an prompt start (p # ps) w =
     (case try_provider E an p prompt start w of
        (Inr insight, w1) \<Rightarrow> (insight, w1)
      | (Inl e, w1) \<Rightarrow> try_providers E an prompt start ps (warn p e w1))"

definition not_analyzed :: jsval where
  "not_analyzed = JObj [(''analyzed'', JBool False), (''meetsConfidenceThreshold'', JBool False)]"

definition analyze :: "env \<Rightarrow> analyzer \<Rightarrow> jsval \<Rightarrow> ruleContext \<Rightarrow> world \<Rightarrow> jsval \<times> world" where
  "analyze E an input rc w =
     (if \<not> enabled an then (not_analyzed, w)
      else
        (case date_now E w of (start, w1) \<Rightarrow>
           try_providers E an (buildPrompt E input rc) start (providers an) w1))"

subsection \<open>Decision combine\<close>

definition combineDecision :: "env \<Rightarrow> analyzer \<Rightarrow> string \<Rightarrow> jsval \<Rightarrow> error + jsval" where
  "combineDecision E an ruleOutcome aiInsight =
     (if ruleOutcome = ''SAFE_DENY'' then
        Inr (JObj [(''finalDecision'', JStr ''DENY''), (''source'', JStr ''RULE_ABSOLUTE'')])
      else if ruleOutcome = ''SAFE_ALLOW'' then
        bindE (if truthy (opt_get aiInsight ''analyzed'')
               then bindE (js_get aiInsight ''recommendation'') (\<lambda>rec.
                      if rec = JStr ''DENY''
                      then bindE (js_get aiInsight ''confidence'') (\<lambda>conf.
                             Inr (js_ge E conf (confidenceThreshold an)))
                      else Inr False)
               else Inr False) (\<lambda>flagged.
          if flagged
          then Inr (JObj [(''finalDecision'', JStr ''REVIEW''),
                          (''source'', JStr ''AI_FLAGGED_REVIEW'')])
          else Inr (JObj [(''finalDecision'', JStr ''ALLOW''), (''source'', JStr ''RULE'')]))
      else if \<not> truthy (opt_get aiInsight ''analyzed'') then
        Inr (JObj [(''finalDecision'', JStr ''REVIEW''), (''source'', JStr ''AI_UNAVAILABLE'')])
      else
        bindE (js_get aiInsight ''meetsConfidenceThreshold'') (\<lambda>meets.
          if truthy meets
          then bindE (js_get aiInsight ''recommendation'') (\<lambda>rec.
               bindE (js_get aiInsight ''confidence'') (\<lambda>conf.
                 Inr (JObj [(''finalDecision'', rec),
                            (''source'', JStr ''AI_RECOMMENDED''),
                            (''confidence'', conf)])))
          else Inr (JObj [(''finalDecision'', JStr ''REVIEW''),
                          (''source'', JStr ''AI_UNCERTAIN'')])))"

section \<open>The decision endpoint\<close>

record http_request =
  req_body :: jsval
  requestId :: jsval

record http_response =
  status :: nat
  json :: jsval

text \<open>
  The \<open>try\<close> block of the \<open>/decide\<close> handler. \<open>decide\<close> is the decision service the
  router is built with; it returns a result or throws.
\<close>

definition decide_try ::
    "(jsval \<Rightarrow> jsval \<Rightarrow> error + jsval) \<Rightarrow> http_request \<Rightarrow> error + http_response" where
  "decide_try decide req =
     bindE (decide (req_body req) (requestId req)) (\<lambda>result.
     bindE (js_get result ''decision'') (\<lambda>decision.
     bindE (js_get decision ''final'') (\<lambda>final.
       Inr \<lparr>status = (if final = JStr ''ERROR'' then 500 else 200), json = result\<rparr>)))"

definition error_body :: "string \<Rightarrow> string \<Rightarrow> jsval \<Rightarrow> jsval" where
  "error_body version timestamp rid =
     JObj [(''decision'',
              JObj [(''final'', JStr ''ERROR''), (''source'', JStr ''SYSTEM_ERROR'')]),
           (''error'',
              JObj [(''message'', JStr ''Internal server error''), (''requestId'', rid)]),
           (''meta'',
              JObj [(''version'', JStr version), (''timestamp'', JStr timestamp)])]"

text \<open>
  The handler: what it sends, and the errors it records with the metrics
  (\<open>recordError(type, endpoint)\<close> increments one counter and cannot fail on these labels).
  \<open>timestamp\<close> is what \<open>new Date().toISOString()\<close> gives in the \<open>catch\<close> block.
\<close>

definition decide_route ::
    "(jsval \<Rightarrow> jsval \<Rightarrow> error + jsval) \<Rightarrow> string \<Rightarrow> string \<Rightarrow> http_request
      \<Rightarrow> http_response \<times> (string \<times> string) list" where
  "decide_route decide ENGINE_VERSION timestamp req =
     (case decide_try decide req of
        Inr res \<Rightarrow> (res, [])
      | Inl e \<Rightarrow>
          (\<lparr>status = 500, json = error_body ENGINE_VERSION timestamp (requestId req)\<rparr>,
           [(''unhandled_error'', ''/decide'')]))"

section \<open>Notions used in the properties\<close>

text \<open>The requests \<open>callProvider\<close> issues for a provider (none for an unknown one), and for a list.\<close>

definition request_list :: "analyzer \<Rightarrow> string \<Rightarrow> provider \<Rightarrow> request list" where
  "request_list an prompt p = (case build_request an p prompt of Inl e \<Rightarrow> [] | Inr rq \<Rightarrow> [rq])"

definition requests_of :: "analyzer \<Rightarrow> string \<Rightarrow> provider list \<Rightarrow> request list" where
  "requests_of an prompt ps = concat (map (request_list an prompt) ps)"

text \<open>
  The providers of a list failing one after the other, each at its own turn: the world after
  the last failure, or \<open>None\<close> when one of the calls succeeds. \<open>after_failure\<close> is the world
  after one failed call: the request of the provider (if it has one) issued, the warning
  logged.
\<close>

definition after_failure :: "analyzer \<Rightarrow> string \<Rightarrow> provider \<Rightarrow> error \<Rightarrow> world \<Rightarrow> world" where
  "after_failure an pr q e v = warn q e (v\<lparr>sent := sent v @ request_list an pr q\<rparr>)"


subsection \<open>Example runs\<close>

text \<open>Concrete runtimes, replies and configurations, on which the properties are instantiated.\<close>

definition example_env :: "(nat \<Rightarrow> request \<Rightarrow> http_result) \<Rightarrow> (string \<Rightarrow> jsval option) \<Rightarrow> env" where
  "example_env n jp =
     \<lparr>net = n, clock = (\<lambda>k. 1000 + 250 * int k), json_parse = jp,
      stringify = (\<lambda>v. ''{}''), to_str = (\<lambda>v. []), to_num = (\<lambda>v. NaN)\<rparr>"

definition no_network :: "nat \<Rightarrow> request \<Rightarrow> http_result" where
  "no_network k rq = Rejected (Transport ''ECONNREFUSED'')"

definition null_parser :: "string \<Rightarrow> jsval option" where
  "null_parser s = (if s = ''null'' then Some JNull else None)"

definition fenced_text :: string where
  "fenced_text = fence @ ''json {\"confidence\":1.5} '' @ fence"

definition fenced_payload :: jsval where
  "fenced_payload = JObj [(''confidence'', JNum (Num (3 / 2)))]"

definition fenced_parser :: "string \<Rightarrow> jsval option" where
  "fenced_parser s = (if s = ''{\"confidence\":1.5}'' then Some fenced_payload else None)"

definition gemini_provider :: provider where
  "gemini_provider =
     \<lparr>name = ''gemini'', apiUrl = ''https://g.test/models'', model = ''g-1'', apiKey = ''kg''\<rparr>"

definition claude_provider :: provider where
  "claude_provider =
     \<lparr>name = ''claude'', apiUrl = ''https://c.test/messages'', model = ''c-1'', apiKey = ''kc''\<rparr>"

definition backup_provider :: provider where
  "backup_provider =
     \<lparr>name = ''claude'', apiUrl = ''https://b.test/messages'', model = ''c-2'', apiKey = ''kb''\<rparr>"

definition unknown_provider :: provider where
  "unknown_provider =
     \<lparr>name = ''openai'', apiUrl = ''https://o.test/chat'', model = ''o-1'', apiKey = ''ko''\<rparr>"

definition claude_reply :: "string \<Rightarrow> jsval" where
  "claude_reply text = JObj [(''content'', JArr [JObj [(''text'', JStr text)]])]"

text \<open>A network on which only the endpoint of \<open>claude_provider\<close> answers; the others time out.\<close>

definition example_net :: "string \<Rightarrow> nat \<Rightarrow> request \<Rightarrow> http_result" where
  "example_net text k rq =
     (if url rq = ''https://c.test/messages'' then Resolved (claude_reply text)
      else Rejected Timeout)"

definition advice_text :: string where
  "advice_text = ''{\"recommendation\":\"ALLOW\",\"confidence\":0.92}''"

definition advice_payload :: jsval where
  "advice_payload =
     JObj [(''recommendation'', JStr ''ALLOW''), (''confidence'', JNum (Num (92 / 100)))]"

definition advice_parser :: "string \<Rightarrow> jsval option" where
  "advice_parser s = (if s = advice_text then Some advice_payload else None)"








definition example_analyzer :: "provider list \<Rightarrow> analyzer" where
  "example_analyzer ps =
     constructor (Some \<lparr>cfg_enabled = Some True, cfg_providers = Some ps,
       cfg_timeout = Some (Num 3000), cfg_confidenceThreshold = None\<rparr>)"

definition start_world :: world where
  "start_world = \<lparr>sent = [], warnings = [], ticks = 0\<rparr>"

definition example_context :: ruleContext where
  "example_context = \<lparr>evaluationPath = JArr []\<rparr>"

definition example_request :: http_request where
  "example_request = \<lparr>req_body = JObj [], requestId = JStr ''req_1''\<rparr>"

definition failing_service :: "jsval \<Rightarrow> jsval \<Rightarrow> error + jsval" where
  "failing_service input rid = Inl (Thrown ''rules not loaded'')"

section \<open>Properties\<close>

subsection \<open>Basic facts\<close>

lemma bindE_Inr [simp]: "bindE (Inr v) f = f v"
  by (simp add: bindE_def)

lemma bindE_Inl [simp]: "bindE (Inl e) f = Inl e"
  by (simp add: bindE_def)

lemma js_get_defined: "v \<noteq> JUndefined \<Longrightarrow> v \<noteq> JNull \<Longrightarrow> js_get v k = Inr (opt_get v k)"
  by (cases v) (simp_all add: opt_get_def)

lemma valid_recommendation_str: "\<exists>rc. valid_recommendation r = JStr rc"
proof -
  have "\<exists>rc. (if x \<in> set [JStr a, JStr b, JStr c] then x else JStr d) = JStr rc" for x a b c d
    by auto
  then show ?thesis unfolding valid_recommendation_def .
qed

lemma clamp_confidence_num: "\<exists>c. clamp_confidence v = JNum c"
  by (cases v) (simp_all add: clamp_confidence_def)

lemma parse_body_string:
  "parse_body E (JStr s) =
     (case json_parse E (trim (strip_fences s)) of
        None \<Rightarrow> Inl SyntaxError
      | Some p \<Rightarrow>
          if p = JUndefined \<or> p = JNull then Inl TypeError
          else Inr (JObj
             [(''recommendation'', valid_recommendation (opt_get p ''recommendation'')),
              (''confidence'', clamp_confidence (opt_get p ''confidence'')),
              (''reasoning'', js_or (opt_get p ''reasoning'') (JStr [])),
              (''riskFactors'', js_or (opt_get p ''risk_factors'') (JArr [])),
              (''mitigatingFactors'', js_or (opt_get p ''mitigating_factors'') (JArr []))]))"
proof (cases "json_parse E (trim (strip_fences s))")
  case None
  then show ?thesis by (simp add: parse_body_def)
next
  case (Some p)
  show ?thesis
  proof (cases "p = JUndefined \<or> p = JNull")
    case True
    then show ?thesis using Some by (auto simp: parse_body_def)
  next
    case False
    then show ?thesis using Some
      by (simp add: parse_body_def js_get_defined)
  qed
qed

lemma parse_body_shape:
  assumes "parse_body E raw = Inr r"
  shows "\<exists>rc c re rf mf. r = JObj [(''recommendation'', JStr rc), (''confidence'', JNum c),
        (''reasoning'', re), (''riskFactors'', rf), (''mitigatingFactors'', mf)]"
proof (cases raw)
  case (JStr s)
  from assms obtain p where r: "r = JObj
             [(''recommendation'', valid_recommendation (opt_get p ''recommendation'')),
              (''confidence'', clamp_confidence (opt_get p ''confidence'')),
              (''reasoning'', js_or (opt_get p ''reasoning'') (JStr [])),
              (''riskFactors'', js_or (opt_get p ''risk_factors'') (JArr [])),
              (''mitigatingFactors'', js_or (opt_get p ''mitigating_factors'') (JArr []))]"
    unfolding JStr parse_body_string by (auto split: option.splits if_splits)
  obtain rc where rc: "valid_recommendation (opt_get p ''recommendation'') = JStr rc"
    using valid_recommendation_str by blast
  obtain c where c: "clamp_confidence (opt_get p ''confidence'') = JNum c"
    using clamp_confidence_num by blast
  show ?thesis unfolding r rc c by blast
qed (use assms in \<open>simp_all add: parse_body_def\<close>)

lemma parseResponse_shape:
  "\<exists>rc c re rf mf. parseResponse E raw = JObj [(''recommendation'', JStr rc), (''confidence'', JNum c),
        (''reasoning'', re), (''riskFactors'', rf), (''mitigatingFactors'', mf)]"
proof (cases "parse_body E raw")
  case (Inl e)
  then show ?thesis by (simp add: parseResponse_def invalid_response_def)
next
  case (Inr r)
  from parse_body_shape[OF Inr] show ?thesis by (simp add: parseResponse_def Inr)
qed

lemma opt_get_obj:
  "opt_get (JObj kvs) k = (case map_of kvs k of Some v \<Rightarrow> v | None \<Rightarrow> JUndefined)"
  by (simp add: opt_get_def)

lemma is_json_not_nan: "is_json p \<Longrightarrow> opt_get p k \<noteq> JNum NaN"
proof (cases p)
  case (JObj kvs)
  assume j: "is_json p"
  show ?thesis
  proof (cases "map_of kvs k")
    case None
    then show ?thesis by (simp add: JObj opt_get_def)
  next
    case (Some v)
    then have "(k, v) \<in> set kvs" by (rule map_of_SomeD)
    with j JObj have "is_json v" by (auto simp: list_all_iff)
    then have "v \<noteq> JNum NaN" by auto
    with Some show ?thesis by (simp add: JObj opt_get_def)
  qed
qed (simp_all add: opt_get_def)

lemma clamp_range:
  "c \<noteq> NaN \<Longrightarrow> \<exists>x. math_max (Num 0) (math_min (Num 1) c) = Num x \<and> 0 \<le> x \<and> x \<le> 1"
  by (cases c) (auto simp: math_max_def math_min_def)

lemma clamp_confidence_range:
  assumes "v \<noteq> JNum NaN"
  shows "\<exists>x. clamp_confidence v = JNum (Num x) \<and> 0 \<le> x \<and> x \<le> 1"
proof (cases v)
  case (JNum c)
  with assms have "c \<noteq> NaN" by simp
  from clamp_range[OF this] show ?thesis by (simp add: JNum clamp_confidence_def)
qed (auto simp: clamp_confidence_def intro: exI[of _ "1 / 2"])

lemma valid_recommendation_in:
  "valid_recommendation r \<in> set [JStr ''ALLOW'', JStr ''DENY'', JStr ''REVIEW'']"
proof -
  have "(if x \<in> set [a, b, c] then x else c) \<in> set [a, b, c]" for x a b c :: jsval
    by auto
  then show ?thesis unfolding valid_recommendation_def .
qed

lemma js_get_opt_get:
  "truthy (opt_get v k) \<Longrightarrow> js_get v k' = Inr (opt_get v k')"
  by (cases v) (simp_all add: opt_get_def)

subsection \<open>Decision combine\<close>

text \<open>No branch of \<open>combineDecision\<close> throws: a property is read only from an analyzed insight.\<close>

lemma combineDecision_total: "\<exists>d. combineDecision E an ruleOutcome aiInsight = Inr d"
proof (cases "truthy (opt_get aiInsight ''analyzed'')")
  case True
  then show ?thesis
    by (simp add: combineDecision_def js_get_opt_get)
next
  case False
  then show ?thesis
    by (simp add: combineDecision_def)
qed

text \<open>
  C1. When the rule outcome is SAFE_DENY, \<open>combineDecision\<close> returns the decision DENY with
  source RULE_ABSOLUTE whatever the advisory insight is (any JavaScript value, \<open>undefined\<close>
  and \<open>null\<close> included), for every analyzer and runtime: the insight is not read, so any two
  insights give the same result.
\<close>

theorem safe_deny_absolute:
  "combineDecision E an ''SAFE_DENY'' aiInsight =
     Inr (JObj [(''finalDecision'', JStr ''DENY''), (''source'', JStr ''RULE_ABSOLUTE'')])
   \<and> combineDecision E an ''SAFE_DENY'' aiInsight
       = combineDecision E' an' ''SAFE_DENY'' otherInsight"
  by (simp add: combineDecision_def)

text \<open>
  C3. When the rule outcome is SAFE_ALLOW, \<open>combineDecision\<close> returns REVIEW with source
  AI_FLAGGED_REVIEW exactly when the insight is analyzed, its recommendation is the string
  DENY and its confidence is at least the analyzer's threshold; in every other case it
  returns ALLOW with source RULE. It never throws. For a numeric confidence the comparison
  is the one of numbers.
\<close>

theorem safe_allow_flagged_or_allowed:
  "combineDecision E an ''SAFE_ALLOW'' aiInsight =
     Inr (if truthy (opt_get aiInsight ''analyzed'')
             \<and> opt_get aiInsight ''recommendation'' = JStr ''DENY''
             \<and> js_ge E (opt_get aiInsight ''confidence'') (confidenceThreshold an)
          then JObj [(''finalDecision'', JStr ''REVIEW''), (''source'', JStr ''AI_FLAGGED_REVIEW'')]
          else JObj [(''finalDecision'', JStr ''ALLOW''), (''source'', JStr ''RULE'')])
   \<and> js_ge E (JNum c) (confidenceThreshold an) = num_ge c (confidenceThreshold an)
   \<and> num_ge (Num x) (Num y) = (y \<le> x)"
proof (cases "truthy (opt_get aiInsight ''analyzed'')")
  case True
  then show ?thesis
    by (simp add: combineDecision_def js_get_opt_get js_ge_def num_ge_def)
next
  case False
  then show ?thesis
    by (simp add: combineDecision_def js_ge_def num_ge_def)
qed

subsection \<open>Constructor\<close>

text \<open>
  C9. A configuration that sets \<open>confidenceThreshold\<close> to 0, \<open>timeout\<close> to 0 or
  \<open>enabled\<close> to false gets the default for that field (0.7, 5000, disabled), because the
  default is taken with \<open>||\<close>; no argument of the constructor gives a threshold of 0.
\<close>

theorem constructor_falsy_gets_default:
  "confidenceThreshold (constructor (Some (c\<lparr>cfg_confidenceThreshold := Some (Num 0)\<rparr>)))
     = Num (7 / 10)
   \<and> timeout (constructor (Some (c\<lparr>cfg_timeout := Some (Num 0)\<rparr>))) = Num 5000
   \<and> enabled (constructor (Some (c\<lparr>cfg_enabled := Some False\<rparr>))) = False
   \<and> confidenceThreshold (constructor arg) \<noteq> Num 0
   \<and> timeout (constructor arg) \<noteq> Num 0"
  by (simp add: constructor_def num_or_def num_truthy_def Let_def split: option.split)

subsection \<open>The provider loop\<close>

lemma callProvider_world:
  assumes "callProvider E an p prompt w = (r, w1)"
  shows "sent w1 = sent w @ request_list an prompt p" and "warnings w1 = warnings w"
    and "ticks w1 = ticks w"
  using assms
  by (auto simp: callProvider_def request_list_def split: sum.splits http_result.splits)

lemma callProvider_success_request:
  assumes "callProvider E an p prompt w = (Inr raw, w1)"
  shows "\<exists>rq. build_request an p prompt = Inr rq"
  using assms by (cases "build_request an p prompt") (simp_all add: callProvider_def)


lemma spread_parsed:
  "spread [(''analyzed'', a), (''provider'', b), (''model'', m), (''analysisTimeMs'', t),
           (''meetsConfidenceThreshold'', x)]
     (JObj [(''recommendation'', r), (''confidence'', c), (''reasoning'', re),
            (''riskFactors'', rf), (''mitigatingFactors'', mf)])
   = [(''analyzed'', a), (''provider'', b), (''model'', m), (''analysisTimeMs'', t),
      (''meetsConfidenceThreshold'', x), (''recommendation'', r), (''confidence'', c),
      (''reasoning'', re), (''riskFactors'', rf), (''mitigatingFactors'', mf)]"
  by (simp add: spread_def)

lemma try_provider_failure:
  assumes "callProvider E an p prompt w = (Inl e, w1)"
  shows "try_provider E an p prompt start w = (Inl e, w1)"
  using assms by (simp add: try_provider_def)

lemma try_provider_success:
  assumes "callProvider E an p prompt w = (Inr raw, w1)"
  shows "try_provider E an p prompt start w =
     (Inr (JObj (spread
        [(''analyzed'', JBool True),
         (''provider'', JStr (name p)),
         (''model'', JStr (model p)),
         (''analysisTimeMs'', ms (clock E (ticks w1) - start)),
         (''meetsConfidenceThreshold'',
            JBool (js_ge E (opt_get (parseResponse E raw) ''confidence'') (confidenceThreshold an)))]
        (parseResponse E raw))),
      w1\<lparr>ticks := Suc (ticks w1)\<rparr>)"
proof -
  obtain rc c re rf mf where sh: "parseResponse E raw =
      JObj [(''recommendation'', JStr rc), (''confidence'', JNum c),
        (''reasoning'', re), (''riskFactors'', rf), (''mitigatingFactors'', mf)]"
    using parseResponse_shape by blast
  show ?thesis
    using assms by (simp add: try_provider_def date_now_def sh opt_get_obj)
qed

lemma requests_of_simps [simp]:
  "requests_of an prompt [] = []"
  "requests_of an prompt (p # ps) = request_list an prompt p @ requests_of an prompt ps"
  "requests_of an prompt (ps @ qs) = requests_of an prompt ps @ requests_of an prompt qs"
  by (simp_all add: requests_of_def)


lemma warn_fields [simp]:
  "sent (warn p e w) = sent w" "ticks (warn p e w) = ticks w"
  "warnings (warn p e w) = warnings w @ [(name p, model p, e)]"
  by (simp_all add: warn_def)

lemma try_providers_all_fail:
  assumes "\<forall>q\<in>set ps. \<forall>v. isl (fst (callProvider E an q prompt v))"
  shows "fst (try_providers E an prompt start ps w) =
           JObj [(''analyzed'', JBool False),
                 (''meetsConfidenceThreshold'', JBool False),
                 (''reason'', JStr ''ALL_PROVIDERS_FAILED''),
                 (''analysisTimeMs'', ms (clock E (ticks w) - start))]
       \<and> sent (snd (try_providers E an prompt start ps w)) = sent w @ requests_of an prompt ps
       \<and> map fst (warnings (snd (try_providers E an prompt start ps w)))
            = map fst (warnings w) @ map name ps
       \<and> ticks (snd (try_providers E an prompt start ps w)) = Suc (ticks w)"
  using assms
proof (induction ps arbitrary: w)
  case Nil
  show ?case by (simp add: all_failed_def date_now_def)
next
  case (Cons q ps)
  obtain r w1 where call: "callProvider E an q prompt w = (r, w1)"
    by (cases "callProvider E an q prompt w")
  from Cons.prems have "isl (fst (callProvider E an q prompt w))" by simp
  with call obtain e where r: "r = Inl e" by (cases r) simp_all
  have step: "try_providers E an prompt start (q # ps) w
      = try_providers E an prompt start ps (warn q e w1)"
    using try_provider_failure[OF call[unfolded r]] by simp
  from Cons.prems have rest: "\<forall>q\<in>set ps. \<forall>v. isl (fst (callProvider E an q prompt v))"
    by simp
  show ?case
    unfolding step using Cons.IH[OF rest, of "warn q e w1"] callProvider_world[OF call]
    by simp
qed

lemma try_providers_first_success:
  assumes "\<forall>q\<in>set pre. \<forall>v. isl (fst (callProvider E an q prompt v))"
    and "\<forall>v. fst (callProvider E an p prompt v) = Inr raw"
  shows "fst (try_providers E an prompt start (pre @ p # post) w) =
           JObj (spread
             [(''analyzed'', JBool True),
              (''provider'', JStr (name p)),
              (''model'', JStr (model p)),
              (''analysisTimeMs'', ms (clock E (ticks w) - start)),
              (''meetsConfidenceThreshold'',
                 JBool (js_ge E (opt_get (parseResponse E raw) ''confidence'')
                   (confidenceThreshold an)))]
             (parseResponse E raw))
       \<and> sent (snd (try_providers E an prompt start (pre @ p # post) w))
            = sent w @ requests_of an prompt (pre @ [p])
       \<and> map fst (warnings (snd (try_providers E an prompt start (pre @ p # post) w)))
            = map fst (warnings w) @ map name pre
       \<and> ticks (snd (try_providers E an prompt start (pre @ p # post) w)) = Suc (ticks w)"
  using assms(1)
proof (induction pre arbitrary: w)
  case Nil
  obtain r w1 where call: "callProvider E an p prompt w = (r, w1)"
    by (cases "callProvider E an p prompt w")
  with assms(2) have r: "r = Inr raw" by (metis fst_conv)
  show ?case
    using try_provider_success[OF call[unfolded r]] callProvider_world[OF call]
    by simp
next
  case (Cons q pre)
  obtain r w1 where call: "callProvider E an q prompt w = (r, w1)"
    by (cases "callProvider E an q prompt w")
  from Cons.prems have "isl (fst (callProvider E an q prompt w))" by simp
  with call obtain e where r: "r = Inl e" by (cases r) simp_all
  have step: "try_providers E an prompt start ((q # pre) @ p # post) w
      = try_providers E an prompt start (pre @ p # post) (warn q e w1)"
    using try_provider_failure[OF call[unfolded r]] by simp
  from Cons.prems have rest: "\<forall>q\<in>set pre. \<forall>v. isl (fst (callProvider E an q prompt v))"
    by simp
  show ?case
    unfolding step using Cons.IH[OF rest, of "warn q e w1"] callProvider_world[OF call]
    by simp
qed


lemma try_providers_result:
  "(\<exists>t. fst (try_providers E an prompt start ps w) =
           JObj [(''analyzed'', JBool False),
                 (''meetsConfidenceThreshold'', JBool False),
                 (''reason'', JStr ''ALL_PROVIDERS_FAILED''),
                 (''analysisTimeMs'', t)])
   \<or> (\<exists>p raw t. p \<in> set ps \<and> fst (try_providers E an prompt start ps w) =
           JObj (spread
             [(''analyzed'', JBool True),
              (''provider'', JStr (name p)),
              (''model'', JStr (model p)),
              (''analysisTimeMs'', t),
              (''meetsConfidenceThreshold'',
                 JBool (js_ge E (opt_get (parseResponse E raw) ''confidence'')
                   (confidenceThreshold an)))]
             (parseResponse E raw)))"
proof (induction ps arbitrary: w)
  case Nil
  show ?case by (simp add: all_failed_def date_now_def)
next
  case (Cons q ps)
  obtain r w1 where call: "callProvider E an q prompt w = (r, w1)"
    by (cases "callProvider E an q prompt w")
  show ?case
  proof (cases r)
    case (Inl e)
    have step: "try_providers E an prompt start (q # ps) w
        = try_providers E an prompt start ps (warn q e w1)"
      using try_provider_failure[OF call[unfolded Inl]] by simp
    from Cons.IH[of "warn q e w1"] show ?thesis
      unfolding step by (elim disjE exE conjE) (simp, metis list.set_intros(2))
  next
    case (Inr raw)
    have "fst (try_providers E an prompt start (q # ps) w) =
           JObj (spread
             [(''analyzed'', JBool True),
              (''provider'', JStr (name q)),
              (''model'', JStr (model q)),
              (''analysisTimeMs'', ms (clock E (ticks w1) - start)),
              (''meetsConfidenceThreshold'',
                 JBool (js_ge E (opt_get (parseResponse E raw) ''confidence'')
                   (confidenceThreshold an)))]
             (parseResponse E raw))"
      using try_provider_success[OF call[unfolded Inr]] by simp
    moreover have "q \<in> set (q # ps)" by simp
    ultimately show ?thesis by blast
  qed
qed

lemma analyze_enabled:
  "enabled an \<Longrightarrow> analyze E an input rc w =
     try_providers E an (buildPrompt E input rc) (clock E (ticks w)) (providers an)
       (w\<lparr>ticks := Suc (ticks w)\<rparr>)"
  by (simp add: analyze_def date_now_def)

lemma analyze_disabled:
  "\<not> enabled an \<Longrightarrow> analyze E an input rc w =
     (JObj [(''analyzed'', JBool False), (''meetsConfidenceThreshold'', JBool False)], w)"
  by (simp add: analyze_def not_analyzed_def)

lemma grey_zone_unanalyzed:
  "\<not> truthy (opt_get aiInsight ''analyzed'') \<Longrightarrow>
     combineDecision E an ''GREY_ZONE'' aiInsight =
       Inr (JObj [(''finalDecision'', JStr ''REVIEW''), (''source'', JStr ''AI_UNAVAILABLE'')])"
  by (simp add: combineDecision_def)

subsection \<open>The example runs\<close>


lemma example_analyzer_fields:
  "enabled (example_analyzer ps)" "providers (example_analyzer ps) = ps"
  "timeout (example_analyzer ps) = Num 3000"
  "confidenceThreshold (example_analyzer ps) = Num (7 / 10)"
  by (simp_all add: example_analyzer_def constructor_def num_or_def num_truthy_def)

lemma example_claude_call:
  assumes "text \<noteq> []"
  shows "fst (callProvider (example_env (example_net text) jp) an claude_provider prompt v)
           = Inr (JStr text)"
  using assms
  by (simp add: callProvider_def build_request_def claude_provider_def example_env_def
      example_net_def read_reply_def extractContent_def claude_reply_def opt_get_obj js_or_def)

lemma example_gemini_call:
  "fst (callProvider (example_env (example_net text) jp) an gemini_provider prompt v)
     = Inl (AxiosError Timeout)"
  by (simp add: callProvider_def build_request_def gemini_provider_def example_env_def
      example_net_def)

lemma example_backup_call:
  "fst (callProvider (example_env (example_net text) jp) an backup_provider prompt v)
     = Inl (AxiosError Timeout)"
  by (simp add: callProvider_def build_request_def backup_provider_def example_env_def
      example_net_def)

lemma example_unknown_call:
  "fst (callProvider E an unknown_provider prompt v) = Inl (UnknownProvider ''openai'')"
  by (simp add: callProvider_def build_request_def unknown_provider_def)

lemma example_urls:
  "map url (request_list an prompt gemini_provider) = [''https://g.test/models/g-1:generateContent?key=kg'']"
  "map url (request_list an prompt claude_provider) = [''https://c.test/messages'']"
  "map url (request_list an prompt backup_provider) = [''https://b.test/messages'']"
  "request_list an prompt unknown_provider = []"
  by (simp_all add: request_list_def build_request_def gemini_provider_def claude_provider_def
      backup_provider_def unknown_provider_def)

lemma not_json_undecodable:
  "json_parse (example_env n null_parser) (trim (strip_fences ''not json'')) = None"
  by (simp add: example_env_def null_parser_def strip_fences.simps fence_def trim_def is_space_def)

lemma advice_decodes:
  "json_parse (example_env n advice_parser) (trim (strip_fences advice_text)) = Some advice_payload"
proof -
  have "trim (strip_fences advice_text) = advice_text"
    by (simp add: advice_text_def strip_fences.simps fence_def trim_def is_space_def)
  then show ?thesis by (simp add: example_env_def advice_parser_def)
qed

lemma advice_parsed:
  "parseResponse (example_env n advice_parser) (JStr advice_text) =
     JObj [(''recommendation'', JStr ''ALLOW''), (''confidence'', JNum (Num (92 / 100))),
           (''reasoning'', JStr []), (''riskFactors'', JArr []), (''mitigatingFactors'', JArr [])]"
  by (simp add: parseResponse_def parse_body_string advice_decodes advice_payload_def opt_get_obj
      valid_recommendation_def clamp_confidence_def math_max_def math_min_def js_or_def)

lemma example_clock [simp]: "clock (example_env n jp) k = 1000 + 250 * int k"
  by (simp add: example_env_def)

lemma start_world_fields [simp]:
  "sent start_world = []" "warnings start_world = []" "ticks start_world = 0"
  by (simp_all add: start_world_def)

lemma example_insight:
  "fst (analyze (example_env (example_net advice_text) advice_parser)
      (example_analyzer [gemini_provider, claude_provider]) JNull example_context start_world) =
     JObj [(''analyzed'', JBool True),
           (''provider'', JStr ''claude''),
           (''model'', JStr ''c-1''),
           (''analysisTimeMs'', ms 250),
           (''meetsConfidenceThreshold'', JBool True),
           (''recommendation'', JStr ''ALLOW''),
           (''confidence'', JNum (Num (92 / 100))),
           (''reasoning'', JStr []),
           (''riskFactors'', JArr []),
           (''mitigatingFactors'', JArr [])]"
proof -
  let ?E = "example_env (example_net advice_text) advice_parser"
  let ?an = "example_analyzer [gemini_provider, claude_provider]"
  let ?pr = "buildPrompt ?E JNull example_context"
  have fail: "\<forall>q\<in>set [gemini_provider]. \<forall>v. isl (fst (callProvider ?E ?an q ?pr v))"
    by (simp add: example_gemini_call)
  have nonempty: "advice_text \<noteq> []" by (simp add: advice_text_def)
  have ok: "\<forall>v. fst (callProvider ?E ?an claude_provider ?pr v) = Inr (JStr advice_text)"
    using example_claude_call[OF nonempty] by simp
  from try_providers_first_success[OF fail ok, of "clock ?E (ticks start_world)" "[]"
      "start_world\<lparr>ticks := Suc (ticks start_world)\<rparr>"]
  show ?thesis
    by (simp add: analyze_enabled example_analyzer_fields advice_parsed spread_parsed opt_get_obj
        js_ge_def num_ge_def claude_provider_def)
qed

subsection \<open>Parsing\<close>

text \<open>
  C6, as stated, fails on the payload \<open>null\<close>: it decodes, its confidence is absent, yet
  reading its properties throws inside the \<open>try\<close> block, and the \<open>catch\<close> gives confidence 0,
  not 0.5.
\<close>

theorem null_payload_counterexample:
  "json_parse (example_env no_network null_parser) (trim (strip_fences ''null'')) = Some JNull
   \<and> is_json JNull
   \<and> opt_get JNull ''confidence'' = JUndefined
   \<and> opt_get (parseResponse (example_env no_network null_parser) (JStr ''null'')) ''confidence''
        = JNum (Num 0)
   \<and> JNum (Num 0) \<noteq> JNum (Num (1 / 2))"
  by (simp add: example_env_def null_parser_def parseResponse_def parse_body_def
      invalid_response_def opt_get_def fence_def trim_def is_space_def strip_fences.simps)

text \<open>
  C6, amended. For every payload that decodes (to a JSON value): unless the payload is
  \<open>null\<close>, \<open>parseResponse\<close> returns the payload's recommendation when it is one of ALLOW, DENY,
  REVIEW and REVIEW otherwise (absent included), its confidence clamped into [0,1] when it is
  a number and 0.5 otherwise (absent included), its reasoning or the empty string, and its
  risk and mitigating factors or the empty array; for the payload \<open>null\<close> it returns the
  invalid-response result (REVIEW, confidence 0). In every case the recommendation is one of
  the three and the confidence lies in [0,1].
\<close>

theorem parseResponse_decoded:
  assumes "json_parse E (trim (strip_fences s)) = Some p" and "is_json p"
  shows "parseResponse E (JStr s) =
      (if p = JNull then invalid_response
       else JObj
         [(''recommendation'', valid_recommendation (opt_get p ''recommendation'')),
          (''confidence'', clamp_confidence (opt_get p ''confidence'')),
          (''reasoning'', js_or (opt_get p ''reasoning'') (JStr [])),
          (''riskFactors'', js_or (opt_get p ''risk_factors'') (JArr [])),
          (''mitigatingFactors'', js_or (opt_get p ''mitigating_factors'') (JArr []))])
    \<and> opt_get (parseResponse E (JStr s)) ''recommendation''
          \<in> set [JStr ''ALLOW'', JStr ''DENY'', JStr ''REVIEW'']
    \<and> (\<exists>c. opt_get (parseResponse E (JStr s)) ''confidence'' = JNum (Num c) \<and> 0 \<le> c \<and> c \<le> 1)
    \<and> valid_recommendation JUndefined = JStr ''REVIEW''
    \<and> valid_recommendation (JStr ''MAYBE'') = JStr ''REVIEW''
    \<and> clamp_confidence JUndefined = JNum (Num (1 / 2))
    \<and> clamp_confidence (JStr ''0.9'') = JNum (Num (1 / 2))
    \<and> clamp_confidence (JNum (Num x)) = JNum (Num (max 0 (min 1 x)))
    \<and> js_or JUndefined (JArr []) = JArr []"
proof -
  have undef: "p \<noteq> JUndefined" using assms(2) by auto
  have eq: "parseResponse E (JStr s) =
      (if p = JNull then invalid_response
       else JObj
         [(''recommendation'', valid_recommendation (opt_get p ''recommendation'')),
          (''confidence'', clamp_confidence (opt_get p ''confidence'')),
          (''reasoning'', js_or (opt_get p ''reasoning'') (JStr [])),
          (''riskFactors'', js_or (opt_get p ''risk_factors'') (JArr [])),
          (''mitigatingFactors'', js_or (opt_get p ''mitigating_factors'') (JArr []))])"
    using undef assms(1) by (simp add: parseResponse_def parse_body_string)
  obtain c where c: "clamp_confidence (opt_get p ''confidence'') = JNum (Num c)" "0 \<le> c" "c \<le> 1"
    using clamp_confidence_range[OF is_json_not_nan[OF assms(2)]] by blast
  have rec: "opt_get (parseResponse E (JStr s)) ''recommendation''
          \<in> set [JStr ''ALLOW'', JStr ''DENY'', JStr ''REVIEW'']"
  proof (cases "p = JNull")
    case True
    then show ?thesis by (simp add: eq invalid_response_def opt_get_obj)
  next
    case False
    have "opt_get (parseResponse E (JStr s)) ''recommendation''
            = valid_recommendation (opt_get p ''recommendation'')"
      using False by (simp add: eq opt_get_obj)
    then show ?thesis using valid_recommendation_in by simp
  qed
  have conf: "\<exists>c. opt_get (parseResponse E (JStr s)) ''confidence'' = JNum (Num c) \<and> 0 \<le> c \<and> c \<le> 1"
  proof (cases "p = JNull")
    case True
    then show ?thesis by (simp add: eq invalid_response_def opt_get_obj)
  next
    case False
    then have "opt_get (parseResponse E (JStr s)) ''confidence'' = JNum (Num c)"
      by (simp add: eq opt_get_obj c)
    with c show ?thesis by blast
  qed
  have d1: "valid_recommendation JUndefined = JStr ''REVIEW''"
    and d2: "valid_recommendation (JStr ''MAYBE'') = JStr ''REVIEW''"
    by (simp_all add: valid_recommendation_def)
  have d3: "clamp_confidence JUndefined = JNum (Num (1 / 2))"
    and d4: "clamp_confidence (JStr ''0.9'') = JNum (Num (1 / 2))"
    and d5: "clamp_confidence (JNum (Num x)) = JNum (Num (max 0 (min 1 x)))"
    and d6: "js_or JUndefined (JArr []) = JArr []"
    by (simp_all add: clamp_confidence_def math_max_def math_min_def js_or_def)
  from eq rec conf d1 d2 d3 d4 d5 d6 show ?thesis by blast
qed

text \<open>The property on a concrete run.\<close>

theorem parseResponse_decoded_witness:
  "json_parse (example_env no_network fenced_parser) (trim (strip_fences fenced_text))
     = Some fenced_payload
   \<and> is_json fenced_payload
   \<and> parseResponse (example_env no_network fenced_parser) (JStr fenced_text) =
       JObj [(''recommendation'', JStr ''REVIEW''), (''confidence'', JNum (Num 1)),
             (''reasoning'', JStr []), (''riskFactors'', JArr []), (''mitigatingFactors'', JArr [])]"
proof -
  have clean: "trim (strip_fences fenced_text) = ''{\"confidence\":1.5}''"
    by (simp add: fenced_text_def fence_def strip_fences.simps trim_def is_space_def)
  have h1: "json_parse (example_env no_network fenced_parser) (trim (strip_fences fenced_text))
     = Some fenced_payload"
    unfolding clean by (simp add: example_env_def fenced_parser_def)
  have h2: "is_json fenced_payload"
    by (simp add: fenced_payload_def)
  have "parseResponse (example_env no_network fenced_parser) (JStr fenced_text) =
       JObj [(''recommendation'', JStr ''REVIEW''), (''confidence'', JNum (Num 1)),
             (''reasoning'', JStr []), (''riskFactors'', JArr []), (''mitigatingFactors'', JArr [])]"
    using parseResponse_decoded[OF h1 h2, of 0]
    by (simp add: fenced_payload_def opt_get_def valid_recommendation_def clamp_confidence_def
        js_or_def math_max_def math_min_def)
  with h1 h2 show ?thesis by simp
qed

text \<open>
  C5. When the reply of a provider is a text that, once the code fences are stripped and the
  text trimmed, does not decode, \<open>parseResponse\<close> returns REVIEW with confidence 0 and the
  reasoning "Invalid AI response"; whatever is thrown in its \<open>try\<close> block gives that same
  result, so it never throws. In the loop of \<open>analyze\<close>, the provider whose call returned that
  text ends the loop: the insight is analyzed, carries that provider's name and that advice,
  and the world is the one right after that provider's call (one request more, no warning),
  whatever providers remain.
\<close>

theorem undecodable_reply_is_advice:
  assumes "json_parse E (trim (strip_fences s)) = None"
  shows "parseResponse E (JStr s) = invalid_response
    \<and> invalid_response =
           JObj [(''recommendation'', JStr ''REVIEW''),
                 (''confidence'', JNum (Num 0)),
                 (''reasoning'', JStr ''Invalid AI response''),
                 (''riskFactors'', JArr []),
                 (''mitigatingFactors'', JArr [])]
    \<and> (parse_body E raw = Inl e \<longrightarrow> parseResponse E raw = invalid_response)
    \<and> (callProvider E an p prompt w = (Inr (JStr s), w1) \<longrightarrow>
          try_providers E an prompt start (p # ps) w =
            (JObj [(''analyzed'', JBool True),
                   (''provider'', JStr (name p)),
                   (''model'', JStr (model p)),
                   (''analysisTimeMs'', ms (clock E (ticks w1) - start)),
                   (''meetsConfidenceThreshold'', JBool (num_ge (Num 0) (confidenceThreshold an))),
                   (''recommendation'', JStr ''REVIEW''),
                   (''confidence'', JNum (Num 0)),
                   (''reasoning'', JStr ''Invalid AI response''),
                   (''riskFactors'', JArr []),
                   (''mitigatingFactors'', JArr [])],
             w1\<lparr>ticks := Suc (ticks w1)\<rparr>)
          \<and> sent w1 = sent w @ request_list an prompt p
          \<and> length (request_list an prompt p) = 1
          \<and> warnings w1 = warnings w)"
proof -
  have inv: "parseResponse E (JStr s) = invalid_response"
    using assms by (simp add: parseResponse_def parse_body_string)
  have caught: "parse_body E raw = Inl e \<longrightarrow> parseResponse E raw = invalid_response"
    by (simp add: parseResponse_def)
  have loop: "try_providers E an prompt start (p # ps) w =
            (JObj [(''analyzed'', JBool True),
                   (''provider'', JStr (name p)),
                   (''model'', JStr (model p)),
                   (''analysisTimeMs'', ms (clock E (ticks w1) - start)),
                   (''meetsConfidenceThreshold'', JBool (num_ge (Num 0) (confidenceThreshold an))),
                   (''recommendation'', JStr ''REVIEW''),
                   (''confidence'', JNum (Num 0)),
                   (''reasoning'', JStr ''Invalid AI response''),
                   (''riskFactors'', JArr []),
                   (''mitigatingFactors'', JArr [])],
             w1\<lparr>ticks := Suc (ticks w1)\<rparr>)
          \<and> sent w1 = sent w @ request_list an prompt p
          \<and> length (request_list an prompt p) = 1
          \<and> warnings w1 = warnings w"
    if call: "callProvider E an p prompt w = (Inr (JStr s), w1)"
  proof -
    from callProvider_success_request[OF call] have one: "length (request_list an prompt p) = 1"
      by (auto simp: request_list_def)
    show ?thesis
      using try_provider_success[OF call, of start] callProvider_world[OF call] one
      by (simp add: inv invalid_response_def spread_parsed opt_get_obj js_ge_def)
  qed
  have lit: "invalid_response =
           JObj [(''recommendation'', JStr ''REVIEW''),
                 (''confidence'', JNum (Num 0)),
                 (''reasoning'', JStr ''Invalid AI response''),
                 (''riskFactors'', JArr []),
                 (''mitigatingFactors'', JArr [])]"
    by (simp add: invalid_response_def)
  from inv lit caught loop show ?thesis by blast
qed

text \<open>The property on a concrete run.\<close>

theorem undecodable_reply_is_advice_witness:
  "json_parse (example_env (example_net ''not json'') null_parser)
       (trim (strip_fences ''not json'')) = None
   \<and> parse_body (example_env (example_net ''not json'') null_parser) (JNum (Num 5)) = Inl TypeError
   \<and> parseResponse (example_env (example_net ''not json'') null_parser) (JNum (Num 5))
       = invalid_response
   \<and> fst (callProvider (example_env (example_net ''not json'') null_parser)
        (example_analyzer [claude_provider, backup_provider]) claude_provider ''P'' start_world)
       = Inr (JStr ''not json'')
   \<and> fst (try_providers (example_env (example_net ''not json'') null_parser)
        (example_analyzer [claude_provider, backup_provider]) ''P'' 1000
        [claude_provider, backup_provider] start_world)
       = JObj [(''analyzed'', JBool True),
               (''provider'', JStr ''claude''),
               (''model'', JStr ''c-1''),
               (''analysisTimeMs'', ms 0),
               (''meetsConfidenceThreshold'', JBool False),
               (''recommendation'', JStr ''REVIEW''),
               (''confidence'', JNum (Num 0)),
               (''reasoning'', JStr ''Invalid AI response''),
               (''riskFactors'', JArr []),
               (''mitigatingFactors'', JArr [])]
   \<and> map url (sent (snd (try_providers (example_env (example_net ''not json'') null_parser)
        (example_analyzer [claude_provider, backup_provider]) ''P'' 1000
        [claude_provider, backup_provider] start_world)))
       = [''https://c.test/messages'']"
proof -
  let ?E = "example_env (example_net ''not json'') null_parser"
  let ?an = "example_analyzer [claude_provider, backup_provider]"
  obtain r w1 where call: "callProvider ?E ?an claude_provider ''P'' start_world = (r, w1)"
    by (cases "callProvider ?E ?an claude_provider ''P'' start_world")
  have ok: "fst (callProvider ?E ?an claude_provider ''P'' start_world) = Inr (JStr ''not json'')"
    by (rule example_claude_call) simp
  with call have r: "r = Inr (JStr ''not json'')" by simp
  have h: "json_parse ?E (trim (strip_fences ''not json'')) = None"
    by (rule not_json_undecodable)
  have pb: "parse_body ?E (JNum (Num 5)) = Inl TypeError"
    by (simp add: parse_body_def)
  note T = undecodable_reply_is_advice[OF h, of "JNum (Num 5)" TypeError ?an claude_provider
      "''P''" start_world w1 1000 "[backup_provider]"]
  from T pb have c1: "parseResponse ?E (JNum (Num 5)) = invalid_response"
    by blast
  from T call[unfolded r] have c2: "try_providers ?E ?an ''P'' 1000 [claude_provider, backup_provider]
        start_world =
            (JObj [(''analyzed'', JBool True),
                   (''provider'', JStr (name claude_provider)),
                   (''model'', JStr (model claude_provider)),
                   (''analysisTimeMs'', ms (clock ?E (ticks w1) - 1000)),
                   (''meetsConfidenceThreshold'', JBool (num_ge (Num 0) (confidenceThreshold ?an))),
                   (''recommendation'', JStr ''REVIEW''),
                   (''confidence'', JNum (Num 0)),
                   (''reasoning'', JStr ''Invalid AI response''),
                   (''riskFactors'', JArr []),
                   (''mitigatingFactors'', JArr [])],
             w1\<lparr>ticks := Suc (ticks w1)\<rparr>)"
    and c3: "sent w1 = sent start_world @ request_list ?an ''P'' claude_provider"
    by blast+
  have tk: "ticks w1 = 0"
    using callProvider_world(3)[OF call] by simp
  have c2': "fst (try_providers ?E ?an ''P'' 1000 [claude_provider, backup_provider] start_world)
       = JObj [(''analyzed'', JBool True),
               (''provider'', JStr ''claude''),
               (''model'', JStr ''c-1''),
               (''analysisTimeMs'', ms 0),
               (''meetsConfidenceThreshold'', JBool False),
               (''recommendation'', JStr ''REVIEW''),
               (''confidence'', JNum (Num 0)),
               (''reasoning'', JStr ''Invalid AI response''),
               (''riskFactors'', JArr []),
               (''mitigatingFactors'', JArr [])]"
    unfolding c2 by (simp add: tk claude_provider_def example_analyzer_fields num_ge_def)
  have c3': "map url (sent (snd (try_providers ?E ?an ''P'' 1000 [claude_provider, backup_provider]
        start_world))) = [''https://c.test/messages'']"
    unfolding c2 by (simp add: c3 example_urls)
  from h pb c1 ok c2' c3' show ?thesis by blast
qed

subsection \<open>Analysis\<close>

text \<open>
  C2. When the rule outcome is GREY_ZONE and the insight is analyzed, \<open>combineDecision\<close>
  returns the insight's recommendation as it is, with source AI_RECOMMENDED and the insight's
  confidence, if the insight's \<open>meetsConfidenceThreshold\<close> is true, and REVIEW with source
  AI_UNCERTAIN otherwise. In an analyzed insight that \<open>analyze\<close> returns, that flag is
  "confidence at least the threshold", computed when the insight is built.
\<close>

theorem grey_zone_analyzed:
  "(truthy (opt_get aiInsight ''analyzed'') \<longrightarrow>
      combineDecision E an ''GREY_ZONE'' aiInsight =
        Inr (if truthy (opt_get aiInsight ''meetsConfidenceThreshold'')
             then JObj [(''finalDecision'', opt_get aiInsight ''recommendation''),
                        (''source'', JStr ''AI_RECOMMENDED''),
                        (''confidence'', opt_get aiInsight ''confidence'')]
             else JObj [(''finalDecision'', JStr ''REVIEW''), (''source'', JStr ''AI_UNCERTAIN'')]))
   \<and> (truthy (opt_get (fst (analyze E an input rc w)) ''analyzed'') \<longrightarrow>
        (\<exists>c. opt_get (fst (analyze E an input rc w)) ''confidence'' = JNum c
           \<and> opt_get (fst (analyze E an input rc w)) ''meetsConfidenceThreshold''
               = JBool (num_ge c (confidenceThreshold an))))"
proof (intro conjI impI)
  assume a: "truthy (opt_get aiInsight ''analyzed'')"
  then show "combineDecision E an ''GREY_ZONE'' aiInsight =
        Inr (if truthy (opt_get aiInsight ''meetsConfidenceThreshold'')
             then JObj [(''finalDecision'', opt_get aiInsight ''recommendation''),
                        (''source'', JStr ''AI_RECOMMENDED''),
                        (''confidence'', opt_get aiInsight ''confidence'')]
             else JObj [(''finalDecision'', JStr ''REVIEW''), (''source'', JStr ''AI_UNCERTAIN'')])"
    by (simp add: combineDecision_def js_get_opt_get)
next
  let ?ins = "fst (analyze E an input rc w)"
  assume a: "truthy (opt_get ?ins ''analyzed'')"
  have en: "enabled an"
  proof (rule ccontr)
    assume "\<not> enabled an"
    from analyze_disabled[OF this] a show False by (simp add: opt_get_obj)
  qed
  let ?run = "try_providers E an (buildPrompt E input rc) (clock E (ticks w)) (providers an)
       (w\<lparr>ticks := Suc (ticks w)\<rparr>)"
  have ins: "?ins = fst ?run" using analyze_enabled[OF en] by simp
  define F where "F t = JObj [(''analyzed'', JBool False),
                 (''meetsConfidenceThreshold'', JBool False),
                 (''reason'', JStr ''ALL_PROVIDERS_FAILED''),
                 (''analysisTimeMs'', t)]" for t
  define G where "G p raw t = JObj (spread
             [(''analyzed'', JBool True),
              (''provider'', JStr (name p)),
              (''model'', JStr (model p)),
              (''analysisTimeMs'', t),
              (''meetsConfidenceThreshold'',
                 JBool (js_ge E (opt_get (parseResponse E raw) ''confidence'')
                   (confidenceThreshold an)))]
             (parseResponse E raw))" for p :: provider and raw t
  have alt: "(\<exists>t. fst ?run = F t) \<or> (\<exists>p raw t. p \<in> set (providers an) \<and> fst ?run = G p raw t)"
    unfolding F_def G_def by (rule try_providers_result)
  have nofail: "fst ?run \<noteq> F t" for t
    using a unfolding ins F_def by (auto simp: opt_get_obj)
  from alt nofail obtain p raw t where "fst ?run = G p raw t"
    by blast
  then have r: "fst ?run =
           JObj (spread
             [(''analyzed'', JBool True),
              (''provider'', JStr (name p)),
              (''model'', JStr (model p)),
              (''analysisTimeMs'', t),
              (''meetsConfidenceThreshold'',
                 JBool (js_ge E (opt_get (parseResponse E raw) ''confidence'')
                   (confidenceThreshold an)))]
             (parseResponse E raw))"
    by (simp add: G_def)
  obtain rc c re rf mf where sh: "parseResponse E raw =
      JObj [(''recommendation'', JStr rc), (''confidence'', JNum c),
        (''reasoning'', re), (''riskFactors'', rf), (''mitigatingFactors'', mf)]"
    using parseResponse_shape by blast
  have "opt_get ?ins ''confidence'' = JNum c
      \<and> opt_get ?ins ''meetsConfidenceThreshold'' = JBool (num_ge c (confidenceThreshold an))"
    unfolding ins r sh spread_parsed by (simp add: opt_get_obj js_ge_def)
  then show "\<exists>c. opt_get ?ins ''confidence'' = JNum c
           \<and> opt_get ?ins ''meetsConfidenceThreshold''
               = JBool (num_ge c (confidenceThreshold an))"
    by blast
qed

text \<open>The property on a concrete run.\<close>

theorem grey_zone_analyzed_witness:
  "truthy (opt_get (fst (analyze (example_env (example_net advice_text) advice_parser)
      (example_analyzer [gemini_provider, claude_provider]) JNull example_context start_world))
      ''analyzed'')
   \<and> combineDecision (example_env (example_net advice_text) advice_parser)
        (example_analyzer [gemini_provider, claude_provider]) ''GREY_ZONE''
        (fst (analyze (example_env (example_net advice_text) advice_parser)
          (example_analyzer [gemini_provider, claude_provider]) JNull example_context start_world))
      = Inr (JObj [(''finalDecision'', JStr ''ALLOW''),
                   (''source'', JStr ''AI_RECOMMENDED''),
                   (''confidence'', JNum (Num (92 / 100)))])
   \<and> opt_get (fst (analyze (example_env (example_net advice_text) advice_parser)
      (example_analyzer [gemini_provider, claude_provider]) JNull example_context start_world))
      ''meetsConfidenceThreshold'' = JBool (num_ge (Num (92 / 100)) (Num (7 / 10)))"
proof -
  let ?E = "example_env (example_net advice_text) advice_parser"
  let ?an = "example_analyzer [gemini_provider, claude_provider]"
  let ?ins = "fst (analyze ?E ?an JNull example_context start_world)"
  have a: "truthy (opt_get ?ins ''analyzed'')"
    by (simp add: example_insight opt_get_obj)
  note T = grey_zone_analyzed[where aiInsight = ?ins and E = ?E and an = ?an and input = JNull
      and rc = example_context and w = start_world]
  from T a have c1: "combineDecision ?E ?an ''GREY_ZONE'' ?ins =
        Inr (if truthy (opt_get ?ins ''meetsConfidenceThreshold'')
             then JObj [(''finalDecision'', opt_get ?ins ''recommendation''),
                        (''source'', JStr ''AI_RECOMMENDED''),
                        (''confidence'', opt_get ?ins ''confidence'')]
             else JObj [(''finalDecision'', JStr ''REVIEW''), (''source'', JStr ''AI_UNCERTAIN'')])"
    by blast
  from T a obtain c where c: "opt_get ?ins ''confidence'' = JNum c"
    "opt_get ?ins ''meetsConfidenceThreshold'' = JBool (num_ge c (confidenceThreshold ?an))"
    by blast
  have conf: "opt_get ?ins ''confidence'' = JNum (Num (92 / 100))"
    and rec: "opt_get ?ins ''recommendation'' = JStr ''ALLOW''"
    by (simp_all add: example_insight opt_get_obj)
  from c(1) conf have cv: "c = Num (92 / 100)" by simp
  have m: "opt_get ?ins ''meetsConfidenceThreshold'' = JBool (num_ge (Num (92 / 100)) (Num (7 / 10)))"
    using c(2) by (simp add: cv example_analyzer_fields)
  have d: "combineDecision ?E ?an ''GREY_ZONE'' ?ins
      = Inr (JObj [(''finalDecision'', JStr ''ALLOW''),
                   (''source'', JStr ''AI_RECOMMENDED''),
                   (''confidence'', JNum (Num (92 / 100)))])"
    unfolding c1 m conf rec by (simp add: num_ge_def)
  from a d m show ?thesis by blast
qed

text \<open>
  C4. A disabled analyzer returns the unanalyzed insight and changes nothing in the world (no
  request is issued); an enabled one whose providers all fail returns the unanalyzed insight
  with reason ALL_PROVIDERS_FAILED and the elapsed time, having issued the requests of its
  known providers in order. Combined with a GREY_ZONE outcome, either insight gives REVIEW with
  source AI_UNAVAILABLE.
\<close>

theorem unanalyzed_gives_review:
  assumes "enabled an \<longrightarrow>
     (\<forall>q\<in>set (providers an). \<forall>v. isl (fst (callProvider E an q (buildPrompt E input rc) v)))"
  shows "(\<not> enabled an \<longrightarrow> analyze E an input rc w =
            (JObj [(''analyzed'', JBool False), (''meetsConfidenceThreshold'', JBool False)], w))
    \<and> (enabled an \<longrightarrow>
          fst (analyze E an input rc w) =
            JObj [(''analyzed'', JBool False),
                  (''meetsConfidenceThreshold'', JBool False),
                  (''reason'', JStr ''ALL_PROVIDERS_FAILED''),
                  (''analysisTimeMs'', ms (clock E (Suc (ticks w)) - clock E (ticks w)))]
          \<and> sent (snd (analyze E an input rc w))
              = sent w @ requests_of an (buildPrompt E input rc) (providers an))
    \<and> combineDecision E' an' ''GREY_ZONE'' (fst (analyze E an input rc w)) =
          Inr (JObj [(''finalDecision'', JStr ''REVIEW''), (''source'', JStr ''AI_UNAVAILABLE'')])"
proof (cases "enabled an")
  case False
  from analyze_disabled[OF False] show ?thesis
    using False by (simp add: grey_zone_unanalyzed opt_get_obj)
next
  case True
  with assms have fail:
    "\<forall>q\<in>set (providers an). \<forall>v. isl (fst (callProvider E an q (buildPrompt E input rc) v))"
    by simp
  from try_providers_all_fail[OF fail, of "clock E (ticks w)" "w\<lparr>ticks := Suc (ticks w)\<rparr>"]
  show ?thesis
    using True by (simp add: analyze_enabled grey_zone_unanalyzed opt_get_obj)
qed

text \<open>The property on a concrete run.\<close>

theorem unanalyzed_gives_review_witness:
  "analyze (example_env no_network null_parser) (constructor None) JNull example_context start_world
     = (JObj [(''analyzed'', JBool False), (''meetsConfidenceThreshold'', JBool False)], start_world)
   \<and> fst (analyze (example_env (example_net advice_text) advice_parser)
        (example_analyzer [gemini_provider, unknown_provider, backup_provider])
        JNull example_context start_world)
      = JObj [(''analyzed'', JBool False),
              (''meetsConfidenceThreshold'', JBool False),
              (''reason'', JStr ''ALL_PROVIDERS_FAILED''),
              (''analysisTimeMs'', ms 250)]
   \<and> map url (sent (snd (analyze (example_env (example_net advice_text) advice_parser)
        (example_analyzer [gemini_provider, unknown_provider, backup_provider])
        JNull example_context start_world)))
      = [''https://g.test/models/g-1:generateContent?key=kg'', ''https://b.test/messages'']
   \<and> combineDecision (example_env no_network null_parser) (example_analyzer []) ''GREY_ZONE''
        (fst (analyze (example_env (example_net advice_text) advice_parser)
          (example_analyzer [gemini_provider, unknown_provider, backup_provider])
          JNull example_context start_world))
      = Inr (JObj [(''finalDecision'', JStr ''REVIEW''), (''source'', JStr ''AI_UNAVAILABLE'')])"
proof -
  let ?Eoff = "example_env no_network null_parser"
  let ?E = "example_env (example_net advice_text) advice_parser"
  let ?an = "example_analyzer [gemini_provider, unknown_provider, backup_provider]"
  have off: "\<not> enabled (constructor None)"
    by (simp add: constructor_def empty_config_def)
  then have h0: "enabled (constructor None) \<longrightarrow>
     (\<forall>q\<in>set (providers (constructor None)).
        \<forall>v. isl (fst (callProvider ?Eoff (constructor None) q (buildPrompt ?Eoff JNull example_context) v)))"
    by simp
  have h1: "enabled ?an \<longrightarrow>
     (\<forall>q\<in>set (providers ?an).
        \<forall>v. isl (fst (callProvider ?E ?an q (buildPrompt ?E JNull example_context) v)))"
    by (simp add: example_analyzer_fields example_gemini_call example_unknown_call
        example_backup_call)
  from unanalyzed_gives_review[OF h0, of start_world] off
  have r0: "analyze ?Eoff (constructor None) JNull example_context start_world
     = (JObj [(''analyzed'', JBool False), (''meetsConfidenceThreshold'', JBool False)], start_world)"
    by blast
  note T = unanalyzed_gives_review[OF h1, of start_world ?Eoff "example_analyzer []"]
  have en: "enabled ?an" by (simp add: example_analyzer_fields)
  from T en have r1: "fst (analyze ?E ?an JNull example_context start_world) =
            JObj [(''analyzed'', JBool False),
                  (''meetsConfidenceThreshold'', JBool False),
                  (''reason'', JStr ''ALL_PROVIDERS_FAILED''),
                  (''analysisTimeMs'', ms (clock ?E (Suc (ticks start_world)) - clock ?E (ticks start_world)))]"
    and r2: "sent (snd (analyze ?E ?an JNull example_context start_world))
              = sent start_world @ requests_of ?an (buildPrompt ?E JNull example_context) (providers ?an)"
    and r3: "combineDecision ?Eoff (example_analyzer []) ''GREY_ZONE''
          (fst (analyze ?E ?an JNull example_context start_world)) =
          Inr (JObj [(''finalDecision'', JStr ''REVIEW''), (''source'', JStr ''AI_UNAVAILABLE'')])"
    by blast+
  have r1': "fst (analyze ?E ?an JNull example_context start_world) =
            JObj [(''analyzed'', JBool False),
                  (''meetsConfidenceThreshold'', JBool False),
                  (''reason'', JStr ''ALL_PROVIDERS_FAILED''),
                  (''analysisTimeMs'', ms 250)]"
    unfolding r1 by simp
  have r2': "map url (sent (snd (analyze ?E ?an JNull example_context start_world)))
      = [''https://g.test/models/g-1:generateContent?key=kg'', ''https://b.test/messages'']"
    unfolding r2 by (simp add: example_analyzer_fields example_urls)
  from r0 r1' r2' r3 show ?thesis by blast
qed








lemma opt_get_primitive [simp]:
  "opt_get JUndefined k = JUndefined" "opt_get JNull k = JUndefined"
  "opt_get (JBool b) k = JUndefined" "opt_get (JNum n) k = JUndefined"
  "opt_get (JStr s) k = JUndefined" "opt_get (JArr xs) k = JUndefined"
  by (simp_all add: opt_get_def)


lemma after_failure_fields [simp]:
  "sent (after_failure an pr q e v) = sent v @ request_list an pr q"
  "warnings (after_failure an pr q e v) = warnings v @ [(name q, model q, e)]"
  "ticks (after_failure an pr q e v) = ticks v"
  by (simp_all add: after_failure_def)











lemma try_providers_unknown:
  assumes "\<forall>q\<in>set ps. name q \<noteq> ''gemini'' \<and> name q \<noteq> ''claude''"
  shows "try_providers E an prompt start ps w =
     (JObj [(''analyzed'', JBool False),
            (''meetsConfidenceThreshold'', JBool False),
            (''reason'', JStr ''ALL_PROVIDERS_FAILED''),
            (''analysisTimeMs'', ms (clock E (ticks w) - start))],
      w\<lparr>warnings := warnings w @ map (\<lambda>q. (name q, model q, UnknownProvider (name q))) ps,
        ticks := Suc (ticks w)\<rparr>)"
  using assms
proof (induction ps arbitrary: w)
  case Nil
  show ?case by (simp add: all_failed_def date_now_def)
next
  case (Cons q ps)
  from Cons.prems have q: "name q \<noteq> ''gemini''" "name q \<noteq> ''claude''" by simp_all
  have call: "callProvider E an q prompt w = (Inl (UnknownProvider (name q)), w)"
    using q by (simp add: callProvider_def build_request_def)
  from Cons.prems have rest: "\<forall>q\<in>set ps. name q \<noteq> ''gemini'' \<and> name q \<noteq> ''claude''"
    by simp
  show ?case
    using try_provider_failure[OF call, of start] Cons.IH[OF rest, of "warn q (UnknownProvider (name q)) w"]
    by (simp add: warn_def)
qed

text \<open>
  C10. For a provider whose name is neither gemini nor claude, \<open>callProvider\<close> throws
  "Unknown provider" and leaves the world as it is (no request). An enabled analyzer whose
  providers all have such names returns the unanalyzed insight with reason
  ALL_PROVIDERS_FAILED, issues no request, and logs one warning for each provider.
\<close>

theorem unknown_provider_is_a_failure:
  "(name p \<noteq> ''gemini'' \<and> name p \<noteq> ''claude'' \<longrightarrow>
      callProvider E an p prompt v = (Inl (UnknownProvider (name p)), v))
   \<and> (enabled an \<and> (\<forall>q\<in>set (providers an). name q \<noteq> ''gemini'' \<and> name q \<noteq> ''claude'') \<longrightarrow>
        fst (analyze E an input rc w) =
          JObj [(''analyzed'', JBool False),
                (''meetsConfidenceThreshold'', JBool False),
                (''reason'', JStr ''ALL_PROVIDERS_FAILED''),
                (''analysisTimeMs'', ms (clock E (Suc (ticks w)) - clock E (ticks w)))]
        \<and> sent (snd (analyze E an input rc w)) = sent w
        \<and> warnings (snd (analyze E an input rc w)) =
            warnings w @ map (\<lambda>q. (name q, model q, UnknownProvider (name q))) (providers an))"
proof (intro conjI impI)
  assume "name p \<noteq> ''gemini'' \<and> name p \<noteq> ''claude''"
  then show "callProvider E an p prompt v = (Inl (UnknownProvider (name p)), v)"
    by (simp add: callProvider_def build_request_def)
next
  assume h: "enabled an \<and> (\<forall>q\<in>set (providers an). name q \<noteq> ''gemini'' \<and> name q \<noteq> ''claude'')"
  then have en: "enabled an"
    and un: "\<forall>q\<in>set (providers an). name q \<noteq> ''gemini'' \<and> name q \<noteq> ''claude''"
    by simp_all
  note run = try_providers_unknown[OF un, of E an "buildPrompt E input rc" "clock E (ticks w)"
      "w\<lparr>ticks := Suc (ticks w)\<rparr>"]
  show "fst (analyze E an input rc w) =
          JObj [(''analyzed'', JBool False),
                (''meetsConfidenceThreshold'', JBool False),
                (''reason'', JStr ''ALL_PROVIDERS_FAILED''),
                (''analysisTimeMs'', ms (clock E (Suc (ticks w)) - clock E (ticks w)))]"
    by (simp add: analyze_enabled[OF en] run)
  show "sent (snd (analyze E an input rc w)) = sent w"
    by (simp add: analyze_enabled[OF en] run)
  show "warnings (snd (analyze E an input rc w)) =
            warnings w @ map (\<lambda>q. (name q, model q, UnknownProvider (name q))) (providers an)"
    by (simp add: analyze_enabled[OF en] run)
qed

text \<open>The property on a concrete run.\<close>

theorem unknown_provider_is_a_failure_witness:
  "name unknown_provider \<noteq> ''gemini'' \<and> name unknown_provider \<noteq> ''claude''
   \<and> enabled (example_analyzer [unknown_provider])
   \<and> callProvider (example_env no_network null_parser) (example_analyzer [unknown_provider])
        unknown_provider ''P'' start_world = (Inl (UnknownProvider ''openai''), start_world)
   \<and> fst (analyze (example_env no_network null_parser) (example_analyzer [unknown_provider])
        JNull example_context start_world)
       = JObj [(''analyzed'', JBool False),
               (''meetsConfidenceThreshold'', JBool False),
               (''reason'', JStr ''ALL_PROVIDERS_FAILED''),
               (''analysisTimeMs'', ms 250)]
   \<and> sent (snd (analyze (example_env no_network null_parser) (example_analyzer [unknown_provider])
        JNull example_context start_world)) = []
   \<and> warnings (snd (analyze (example_env no_network null_parser)
        (example_analyzer [unknown_provider]) JNull example_context start_world))
       = [(''openai'', ''o-1'', UnknownProvider ''openai'')]"
proof -
  let ?E = "example_env no_network null_parser"
  let ?an = "example_analyzer [unknown_provider]"
  have nm: "name unknown_provider \<noteq> ''gemini'' \<and> name unknown_provider \<noteq> ''claude''"
    by (simp add: unknown_provider_def)
  have en: "enabled ?an" by (simp add: example_analyzer_fields)
  have un: "\<forall>q\<in>set (providers ?an). name q \<noteq> ''gemini'' \<and> name q \<noteq> ''claude''"
    by (simp add: example_analyzer_fields unknown_provider_def)
  note T = unknown_provider_is_a_failure[where p = unknown_provider and E = ?E and an = ?an
      and prompt = "''P''" and v = start_world and input = JNull and rc = example_context
      and w = start_world]
  from T nm have c0: "callProvider ?E ?an unknown_provider ''P'' start_world
      = (Inl (UnknownProvider (name unknown_provider)), start_world)"
    by blast
  from T en un have c1: "fst (analyze ?E ?an JNull example_context start_world) =
          JObj [(''analyzed'', JBool False),
                (''meetsConfidenceThreshold'', JBool False),
                (''reason'', JStr ''ALL_PROVIDERS_FAILED''),
                (''analysisTimeMs'', ms (clock ?E (Suc (ticks start_world)) - clock ?E (ticks start_world)))]"
    and c2: "sent (snd (analyze ?E ?an JNull example_context start_world)) = sent start_world"
    and c3: "warnings (snd (analyze ?E ?an JNull example_context start_world)) =
            warnings start_world @ map (\<lambda>q. (name q, model q, UnknownProvider (name q))) (providers ?an)"
    by blast+
  have c0': "callProvider ?E ?an unknown_provider ''P'' start_world
      = (Inl (UnknownProvider ''openai''), start_world)"
    unfolding c0 by (simp add: unknown_provider_def)
  have c1': "fst (analyze ?E ?an JNull example_context start_world) =
          JObj [(''analyzed'', JBool False),
                (''meetsConfidenceThreshold'', JBool False),
                (''reason'', JStr ''ALL_PROVIDERS_FAILED''),
                (''analysisTimeMs'', ms 250)]"
    unfolding c1 by simp
  have c2': "sent (snd (analyze ?E ?an JNull example_context start_world)) = []"
    unfolding c2 by simp
  have c3': "warnings (snd (analyze ?E ?an JNull example_context start_world))
       = [(''openai'', ''o-1'', UnknownProvider ''openai'')]"
    unfolding c3 by (simp add: example_analyzer_fields unknown_provider_def)
  from nm en c0' c1' c2' c3' show ?thesis by blast
qed

subsection \<open>The decision endpoint\<close>

text \<open>
  C8. The \<open>/decide\<close> handler always sends a response: the one of its \<open>try\<close> block, or, when
  anything is thrown there, status 500 with the decision ERROR from SYSTEM_ERROR, the
  request id of the caller in the error object, and the version and the time. In particular
  an exception thrown by the decision service gives that response, and the error is recorded.
\<close>

theorem decide_errors_become_responses:
  "fst (decide_route decide ENGINE_VERSION timestamp req) =
     (case decide_try decide req of
        Inr res \<Rightarrow> res
      | Inl e \<Rightarrow>
          \<lparr>status = 500,
           json = JObj [(''decision'',
                           JObj [(''final'', JStr ''ERROR''), (''source'', JStr ''SYSTEM_ERROR'')]),
                        (''error'',
                           JObj [(''message'', JStr ''Internal server error''),
                                 (''requestId'', requestId req)]),
                        (''meta'',
                           JObj [(''version'', JStr ENGINE_VERSION),
                                 (''timestamp'', JStr timestamp)])]\<rparr>)
   \<and> (decide (req_body req) (requestId req) = Inl e \<longrightarrow>
        decide_try decide req = Inl e
        \<and> status (fst (decide_route decide ENGINE_VERSION timestamp req)) = 500
        \<and> opt_get (json (fst (decide_route decide ENGINE_VERSION timestamp req))) ''decision''
             = JObj [(''final'', JStr ''ERROR''), (''source'', JStr ''SYSTEM_ERROR'')]
        \<and> opt_get (opt_get (json (fst (decide_route decide ENGINE_VERSION timestamp req)))
             ''error'') ''requestId'' = requestId req
        \<and> snd (decide_route decide ENGINE_VERSION timestamp req)
             = [(''unhandled_error'', ''/decide'')])"
  by (simp add: decide_route_def decide_try_def error_body_def opt_get_obj split: sum.split)

text \<open>The property on a concrete run.\<close>

theorem decide_errors_become_responses_witness:
  "failing_service (req_body example_request) (requestId example_request)
     = Inl (Thrown ''rules not loaded'')
   \<and> fst (decide_route failing_service ''2.0.0'' ''2026-01-01T00:00:00.000Z'' example_request) =
       \<lparr>status = 500,
        json = JObj [(''decision'',
                        JObj [(''final'', JStr ''ERROR''), (''source'', JStr ''SYSTEM_ERROR'')]),
                     (''error'',
                        JObj [(''message'', JStr ''Internal server error''),
                              (''requestId'', JStr ''req_1'')]),
                     (''meta'',
                        JObj [(''version'', JStr ''2.0.0''),
                              (''timestamp'', JStr ''2026-01-01T00:00:00.000Z'')])]\<rparr>
   \<and> snd (decide_route failing_service ''2.0.0'' ''2026-01-01T00:00:00.000Z'' example_request)
       = [(''unhandled_error'', ''/decide'')]"
proof -
  have h: "failing_service (req_body example_request) (requestId example_request)
     = Inl (Thrown ''rules not loaded'')"
    by (simp add: failing_service_def)
  note T = decide_errors_become_responses[where decide = failing_service
      and ENGINE_VERSION = "''2.0.0''" and timestamp = "''2026-01-01T00:00:00.000Z''"
      and req = example_request and e = "Thrown ''rules not loaded''"]
  from T h have t: "decide_try failing_service example_request = Inl (Thrown ''rules not loaded'')"
    and eff: "snd (decide_route failing_service ''2.0.0'' ''2026-01-01T00:00:00.000Z'' example_request)
       = [(''unhandled_error'', ''/decide'')]"
    by blast+
  from T have r: "fst (decide_route failing_service ''2.0.0'' ''2026-01-01T00:00:00.000Z'' example_request) =
     (case decide_try failing_service example_request of
        Inr res \<Rightarrow> res
      | Inl e \<Rightarrow>
          \<lparr>status = 500,
           json = JObj [(''decision'',
                           JObj [(''final'', JStr ''ERROR''), (''source'', JStr ''SYSTEM_ERROR'')]),
                        (''error'',
                           JObj [(''message'', JStr ''Internal server error''),
                                 (''requestId'', requestId example_request)]),
                        (''meta'',
                           JObj [(''version'', JStr ''2.0.0''),
                                 (''timestamp'', JStr ''2026-01-01T00:00:00.000Z'')])]\<rparr>)"
    by blast
  have r': "fst (decide_route failing_service ''2.0.0'' ''2026-01-01T00:00:00.000Z'' example_request) =
       \<lparr>status = 500,
        json = JObj [(''decision'',
                        JObj [(''final'', JStr ''ERROR''), (''source'', JStr ''SYSTEM_ERROR'')]),
                     (''error'',
                        JObj [(''message'', JStr ''Internal server error''),
                              (''requestId'', JStr ''req_1'')]),
                     (''meta'',
                        JObj [(''version'', JStr ''2.0.0''),
                              (''timestamp'', JStr ''2026-01-01T00:00:00.000Z'')])]\<rparr>"
    unfolding r t by (simp add: example_request_def)
  from h r' eff show ?thesis by blast
qed

end
